theory Spec2Isabelle
  imports Main "HOL-Library.Word" "HOL-Library.AList"
begin

section \<open>Data model of the BEAM block scanner\<close>

text \<open>
  The scanner of \<^verbatim>\<open>beam/blockscanner.go\<close> works on unsigned 64-bit heights and
  amounts, on strings for hashes, addresses and identifiers, and on the record types of
  the openwallet framework. Arithmetic on heights wraps around as Go's \<^verbatim>\<open>uint64\<close> does.
\<close>

type_synonym u64 = "64 word"

text \<open>\<^verbatim>\<open>Block\<close>: height, hash and hash of the previous block.\<close>

record Block =
  Height :: u64
  Hash :: string
  PrevBlockHash :: string

text \<open>\<^verbatim>\<open>Transaction\<close>: the fields that the scanner reads and writes.\<close>

record Transaction =
  TxID :: string
  BlockHeight :: u64
  BlockHash :: string
  Sender :: string
  Receiver :: string
  Value :: u64
  Fee :: u64
  CreateTime :: int

text \<open>Errors are values. An error of the wallet RPC carries its text.\<close>

datatype error =
    RpcError string
  | RescanHeightError     \<comment> \<open>"block height to rescan must greater than 0."\<close>
  | SaveWorkFailed        \<comment> \<open>"block scanner saveWork failed"\<close>

fun error_text :: "error \<Rightarrow> string" where
  "error_text (RpcError msg) = msg"
| "error_text RescanHeightError = ''block height to rescan must greater than 0.''"
| "error_text SaveWorkFailed = ''block scanner saveWork failed''"

text \<open>
  The wallet RPC client (\<^verbatim>\<open>bs.wm.walletClient\<close>, \<^verbatim>\<open>bs.wm.GetTransactionsByHeight\<close>):
  every call either fails with an error text or returns its value.
\<close>

record ledger =
  walletStatus :: "string + Block"
  blockByHeight :: "u64 \<Rightarrow> string + Block"
  transactionsByHeight :: "u64 \<Rightarrow> string + Transaction list"

subsection \<open>Records of the openwallet framework\<close>

record Coin =
  Symbol :: string
  IsContract :: bool
  ContractID :: string

record owTransaction =
  WxID :: string
  ow_TxID :: string
  ow_Coin :: Coin
  From :: "string list"
  To :: "string list"
  Amount :: string
  Decimal :: int
  ow_BlockHash :: string
  ow_BlockHeight :: u64
  Fees :: string
  ConfirmTime :: int
  Status :: string
  Reason :: string

record Recharge =
  Sid :: string
  rc_TxID :: string
  Address :: string
  rc_Coin :: Coin
  rc_Amount :: string
  rc_BlockHash :: string
  rc_BlockHeight :: u64
  Index :: u64
  CreateAt :: int

text \<open>
  \<^verbatim>\<open>TxInput\<close> and \<^verbatim>\<open>TxOutPut\<close> embed a \<^verbatim>\<open>Recharge\<close> by value, so the copy
  \<^verbatim>\<open>tmp := *txInput\<close> of \<^verbatim>\<open>extractTxInput\<close> is independent of the original.
\<close>

record TxInput =
  SourceTxID :: string
  SourceIndex :: u64
  in_Recharge :: Recharge

record TxOutPut =
  out_Recharge :: Recharge

record TxExtractData =
  TxInputs :: "TxInput list"
  TxOutputs :: "TxOutPut list"
  Transaction :: "owTransaction option"

datatype BalanceModelType = BalanceModelTypeAddress | BalanceModelTypeAccount

record ScanTarget =
  st_Address :: string
  st_BalanceModelType :: BalanceModelType

type_synonym BlockScanTargetFunc = "ScanTarget \<Rightarrow> string \<times> bool"

text \<open>
  The extracted data is a Go map from subscriber key to a slice of record sets. It is an
  association list with at most one entry per key here, so that the notifier can walk it.
\<close>

record ExtractResult =
  extractData :: "(string \<times> TxExtractData list) list"
  er_TxID :: string
  er_BlockHeight :: u64
  Success :: bool

text \<open>
  The scanner itself: the asset's symbol and decimal count (\<^verbatim>\<open>bs.wm.Symbol()\<close>,
  \<^verbatim>\<open>bs.wm.Decimal()\<close>), the identifier generators of openwallet, the registered
  observers, the pause flag and the tail-rescan count. The generators
  \<^verbatim>\<open>GenTxInputSID\<close> and \<^verbatim>\<open>GenTxOutPutSID\<close> are library functions of
  (txID, symbol, contractID, index) and are parameters here. An observer's
  \<^verbatim>\<open>BlockExtractDataNotify\<close> returns an error text or nothing.
\<close>

record scanner =
  wm_Symbol :: string
  wm_Decimal :: int
  GenTxInputSID :: "string \<Rightarrow> string \<Rightarrow> string \<Rightarrow> u64 \<Rightarrow> string"
  GenTxOutPutSID :: "string \<Rightarrow> string \<Rightarrow> string \<Rightarrow> u64 \<Rightarrow> string"
  WxIDHash :: "string \<Rightarrow> string \<Rightarrow> string \<Rightarrow> string"
  Observers :: "(string \<Rightarrow> TxExtractData \<Rightarrow> string option) list"
  ScanTargetFunc :: BlockScanTargetFunc
  Scanning :: bool
  RescanLastBlockCount :: u64

text \<open>
  Modelled from the spec: \<^verbatim>\<open>openwallet.GenTransactionWxID\<close> is not part of the
  sources at hand. The transaction-level identifier is derived from the normalized
  transaction's txID, asset symbol and contract identifier.
\<close>

definition GenTransactionWxID :: "scanner \<Rightarrow> owTransaction \<Rightarrow> string" where
  "GenTransactionWxID bs tx =
     WxIDHash bs (ow_TxID tx) (Symbol (ow_Coin tx)) (ContractID (ow_Coin tx))"

section \<open>Decimal amounts\<close>

text \<open>
  Amounts are rendered by \<^verbatim>\<open>common.BigIntToDecimals(v, d).String()\<close>. The decimal type
  is that of the third-party library \<^verbatim>\<open>shopspring/decimal\<close>, which is not part of the
  repository; the definitions below follow the library. A decimal is an integer
  coefficient and a power of ten, \<open>dvalue * 10 ^ dexp\<close>. \<^verbatim>\<open>BigIntToDecimals\<close> shifts the
  integer \<open>v\<close> by \<open>-d\<close> places, which is exact. The library's \<^verbatim>\<open>String\<close> prints the
  integer part and, after a point, the fraction without its trailing zeros (fixed places
  are what its \<^verbatim>\<open>StringFixed\<close> prints, which the scanner does not call); a number with
  no fraction left is printed without the point.
\<close>

record decimal =
  dvalue :: int
  dexp :: int

definition BigIntToDecimals :: "int \<Rightarrow> int \<Rightarrow> decimal" where
  "BigIntToDecimals amount decimals = \<lparr>dvalue = amount, dexp = - decimals\<rparr>"

definition digit_char :: "nat \<Rightarrow> char" where
  "digit_char n = ''0123456789'' ! (n mod 10)"

function natString :: "nat \<Rightarrow> string" where
  "natString n =
     (if n < 10 then [digit_char n] else natString (n div 10) @ [digit_char n])"
  by pat_completeness auto
termination
  by (relation "measure (\<lambda>n. n)") auto

declare natString.simps [simp del]

definition trimTrailingZeros :: "string \<Rightarrow> string" where
  "trimTrailingZeros s = rev (dropWhile (\<lambda>c. c = CHR ''0'') (rev s))"

definition decimal_String :: "decimal \<Rightarrow> string" where
  "decimal_String d =
     (if 0 \<le> dexp d then
        (if dvalue d < 0 then ''-'' else '''')
          @ natString (nat \<bar>dvalue d\<bar> * 10 ^ nat (dexp d))
      else
        let str = natString (nat \<bar>dvalue d\<bar>);
            k = nat (- dexp d);
            intPart = (if k < length str then take (length str - k) str else ''0'');
            fractionalPart =
              (if k < length str then drop (length str - k) str
               else replicate (k - length str) (CHR ''0'') @ str);
            fractionalPart = trimTrailingZeros fractionalPart;
            number =
              (if fractionalPart \<noteq> [] then intPart @ ''.'' @ fractionalPart else intPart)
        in if dvalue d < 0 then ''-'' @ number else number)"

text \<open>The amount string of \<open>v\<close> minor units under the scanner's decimal count.\<close>

definition amountString :: "scanner \<Rightarrow> u64 \<Rightarrow> string" where
  "amountString bs v = decimal_String (BigIntToDecimals (uint v) (wm_Decimal bs))"

section \<open>Extraction engine\<close>

definition nativeCoin :: "scanner \<Rightarrow> Coin" where
  "nativeCoin bs = \<lparr>Symbol = wm_Symbol bs, IsContract = False, ContractID = ''''\<rparr>"

definition extractTxInput :: "scanner \<Rightarrow> Transaction \<Rightarrow> TxExtractData \<Rightarrow> TxExtractData" where
  "extractTxInput bs tx txExtractData =
     (let coin = nativeCoin bs;
          amount = BigIntToDecimals (uint (Value tx)) (wm_Decimal bs);
          txInput = \<lparr>SourceTxID = '''', SourceIndex = 0,
             in_Recharge = \<lparr>Sid = GenTxInputSID bs (TxID tx) (wm_Symbol bs) (ContractID coin) 0,
               rc_TxID = TxID tx, Address = Sender tx, rc_Coin = coin,
               rc_Amount = decimal_String amount, rc_BlockHash = BlockHash tx,
               rc_BlockHeight = BlockHeight tx, Index = 0, CreateAt = CreateTime tx\<rparr>\<rparr>;
          fees = BigIntToDecimals (uint (Fee tx)) (wm_Decimal bs);
          feeCharge = txInput\<lparr>in_Recharge :=
             (in_Recharge txInput)\<lparr>rc_Amount := decimal_String fees\<rparr>\<rparr>
      in txExtractData\<lparr>TxInputs := TxInputs txExtractData @ [txInput, feeCharge]\<rparr>)"

definition extractTxOutput :: "scanner \<Rightarrow> Transaction \<Rightarrow> TxExtractData \<Rightarrow> TxExtractData" where
  "extractTxOutput bs tx txExtractData =
     (let coin = nativeCoin bs;
          amount = BigIntToDecimals (uint (Value tx)) (wm_Decimal bs);
          txOutput = \<lparr>out_Recharge =
             \<lparr>Sid = GenTxOutPutSID bs (TxID tx) (wm_Symbol bs) (ContractID coin) 0,
               rc_TxID = TxID tx, Address = Receiver tx, rc_Coin = coin,
               rc_Amount = decimal_String amount, rc_BlockHash = BlockHash tx,
               rc_BlockHeight = BlockHeight tx, Index = 0, CreateAt = CreateTime tx\<rparr>\<rparr>
      in txExtractData\<lparr>TxOutputs := TxOutputs txExtractData @ [txOutput]\<rparr>)"

text \<open>The normalized transaction built by \<^verbatim>\<open>InitExtractResult\<close>, with its WxID.\<close>

definition normalizedTransaction :: "scanner \<Rightarrow> Transaction \<Rightarrow> owTransaction" where
  "normalizedTransaction bs tx =
     (let amount = BigIntToDecimals (uint (Value tx)) (wm_Decimal bs);
          transx = \<lparr>WxID = '''', ow_TxID = TxID tx, ow_Coin = nativeCoin bs,
             From = [Sender tx @ '':'' @ decimal_String amount],
             To = [Receiver tx @ '':'' @ decimal_String amount],
             Amount = decimal_String amount, Decimal = wm_Decimal bs,
             ow_BlockHash = BlockHash tx, ow_BlockHeight = BlockHeight tx,
             Fees = ''0'', ConfirmTime = CreateTime tx, Status = ''1'', Reason = ''''\<rparr>
      in transx\<lparr>WxID := GenTransactionWxID bs transx\<rparr>)"

text \<open>\<open>operate\<close>: 0 extracts input and output, 1 the input, 2 the output.\<close>

definition InitExtractResult ::
  "scanner \<Rightarrow> Transaction \<Rightarrow> string \<Rightarrow> ExtractResult \<Rightarrow> int \<Rightarrow> ExtractResult" where
  "InitExtractResult bs tx sourceKey result operate =
     (let txExtractDataArray =
            (case map_of (extractData result) sourceKey of None \<Rightarrow> [] | Some a \<Rightarrow> a);
          txExtractData = \<lparr>TxInputs = [], TxOutputs = [],
             Transaction = Some (normalizedTransaction bs tx)\<rparr>;
          txExtractData =
            (if operate = 0 then extractTxOutput bs tx (extractTxInput bs tx txExtractData)
             else if operate = 1 then extractTxInput bs tx txExtractData
             else if operate = 2 then extractTxOutput bs tx txExtractData
             else txExtractData)
      in result\<lparr>extractData :=
            AList.update sourceKey (txExtractDataArray @ [txExtractData]) (extractData result)\<rparr>)"

definition GetBlockByHeight :: "ledger \<Rightarrow> u64 \<Rightarrow> error + Block" where
  "GetBlockByHeight led height =
     (case blockByHeight led height of Inl msg \<Rightarrow> Inl (RpcError msg) | Inr b \<Rightarrow> Inr b)"

text \<open>
  \<^verbatim>\<open>ExtractTransaction\<close> writes the block context into the transaction it is given,
  so the model returns the transaction beside the result.
\<close>

definition ExtractTransaction ::
  "scanner \<Rightarrow> ledger \<Rightarrow> u64 \<Rightarrow> string \<Rightarrow> Transaction \<Rightarrow> BlockScanTargetFunc
     \<Rightarrow> ExtractResult \<times> Transaction" where
  "ExtractTransaction bs led blockHeight blockHash trx scanTargetFunc =
     (let result = \<lparr>extractData = [], er_TxID = TxID trx,
            er_BlockHeight = blockHeight, Success = False\<rparr>;
          (blockHeight, blockHash) =
            (if length blockHash = 0 then
               (case GetBlockByHeight led (BlockHeight trx) of
                  Inr block \<Rightarrow> (Height block, Hash block)
                | Inl err \<Rightarrow> (blockHeight, blockHash))
             else (blockHeight, blockHash));
          trx = trx\<lparr>BlockHeight := blockHeight, BlockHash := blockHash\<rparr>;
          (accountId, ok1) = scanTargetFunc
            \<lparr>st_Address = Sender trx, st_BalanceModelType = BalanceModelTypeAddress\<rparr>;
          (accountId2, ok2) = scanTargetFunc
            \<lparr>st_Address = Receiver trx, st_BalanceModelType = BalanceModelTypeAddress\<rparr>;
          result =
            (if accountId = accountId2 \<and> length accountId > 0 \<and> length accountId2 > 0
             then InitExtractResult bs trx accountId result 0
             else
               (let result = (if ok1 then InitExtractResult bs trx accountId result 1
                              else result)
                in if ok2 then InitExtractResult bs trx accountId2 result 2 else result))
      in (result\<lparr>Success := True\<rparr>, trx))"

section \<open>Local store and notifications\<close>

text \<open>
  Modelled from the spec: the Local Ledger Store and the unscanned-record type are code
  of the wallet manager that is not part of the sources at hand (\<^verbatim>\<open>GetLocalNewBlock\<close>,
  \<^verbatim>\<open>SaveLocalNewBlock\<close>, \<^verbatim>\<open>GetLocalBlock\<close>, \<^verbatim>\<open>SaveLocalBlock\<close>,
  \<^verbatim>\<open>SaveUnscanRecord\<close>, \<^verbatim>\<open>DeleteUnscanRecord\<close>, \<^verbatim>\<open>NewUnscanRecord\<close>,
  \<^verbatim>\<open>Block.BlockHeader\<close>). The store persists the cursor (last scanned height and
  hash, height 0 when there is none), historical blocks by height, and the queue of
  unscanned records (block height, txID, reason). The block headers handed to the
  observers by \<^verbatim>\<open>NewBlockNotify\<close> are kept in a log, in the order of the calls.
\<close>

record UnscanRecord =
  ur_BlockHeight :: u64
  ur_TxID :: string
  ur_Reason :: string

record BlockHeader =
  bh_Hash :: string
  bh_Previousblockhash :: string
  bh_Height :: u64
  bh_Symbol :: string
  bh_Fork :: bool

record store =
  localNewBlock :: "u64 \<times> string"
  localBlocks :: "u64 \<rightharpoonup> Block"
  unscanRecords :: "UnscanRecord list"
  blockNotifications :: "BlockHeader list"

definition NewUnscanRecord :: "u64 \<Rightarrow> string \<Rightarrow> string \<Rightarrow> UnscanRecord" where
  "NewUnscanRecord height txID reason =
     \<lparr>ur_BlockHeight = height, ur_TxID = txID, ur_Reason = reason\<rparr>"

definition SaveUnscanRecord :: "store \<Rightarrow> UnscanRecord \<Rightarrow> store" where
  "SaveUnscanRecord st r = st\<lparr>unscanRecords := unscanRecords st @ [r]\<rparr>"

definition DeleteUnscanRecord :: "store \<Rightarrow> u64 \<Rightarrow> store" where
  "DeleteUnscanRecord st height =
     st\<lparr>unscanRecords := filter (\<lambda>r. ur_BlockHeight r \<noteq> height) (unscanRecords st)\<rparr>"

definition GetLocalNewBlock :: "store \<Rightarrow> u64 \<times> string" where
  "GetLocalNewBlock st = localNewBlock st"

definition SaveLocalNewBlock :: "store \<Rightarrow> u64 \<Rightarrow> string \<Rightarrow> store" where
  "SaveLocalNewBlock st height hash = st\<lparr>localNewBlock := (height, hash)\<rparr>"

definition GetLocalBlock :: "store \<Rightarrow> u64 \<Rightarrow> Block option" where
  "GetLocalBlock st height = localBlocks st height"

definition SaveLocalBlock :: "store \<Rightarrow> Block \<Rightarrow> store" where
  "SaveLocalBlock st block = st\<lparr>localBlocks := (localBlocks st)(Height block \<mapsto> block)\<rparr>"

definition Block_BlockHeader :: "Block \<Rightarrow> string \<Rightarrow> BlockHeader" where
  "Block_BlockHeader block symbol =
     \<lparr>bh_Hash = Hash block, bh_Previousblockhash = PrevBlockHash block,
      bh_Height = Height block, bh_Symbol = symbol, bh_Fork = False\<rparr>"

definition newBlockNotify :: "scanner \<Rightarrow> store \<Rightarrow> Block \<Rightarrow> bool \<Rightarrow> store" where
  "newBlockNotify bs st block isFork =
     (let header = (Block_BlockHeader block (wm_Symbol bs))\<lparr>bh_Fork := isFork\<rparr>
      in st\<lparr>blockNotifications := blockNotifications st @ [header]\<rparr>)"

section \<open>Ledger queries\<close>

definition GetCurrentBlock :: "ledger \<Rightarrow> error + Block" where
  "GetCurrentBlock led =
     (case walletStatus led of Inl msg \<Rightarrow> Inl (RpcError msg) | Inr b \<Rightarrow> Inr b)"

definition GetBlockHeight :: "ledger \<Rightarrow> error + u64" where
  "GetBlockHeight led =
     (case GetCurrentBlock led of Inl err \<Rightarrow> Inl err | Inr block \<Rightarrow> Inr (Height block))"

definition GetTransactionsByHeight :: "ledger \<Rightarrow> u64 \<Rightarrow> error + Transaction list" where
  "GetTransactionsByHeight led height =
     (case transactionsByHeight led height of
        Inl msg \<Rightarrow> Inl (RpcError msg) | Inr txs \<Rightarrow> Inr txs)"

text \<open>\<^verbatim>\<open>GetScannedBlockHeader\<close>: the height and hash from which a scan starts.\<close>

definition GetScannedBlockHeader :: "ledger \<Rightarrow> store \<Rightarrow> error + u64 \<times> string" where
  "GetScannedBlockHeader led st =
     (let (blockHeight, hash) = GetLocalNewBlock st
      in if blockHeight = 0 then
           (case GetCurrentBlock led of
              Inl err \<Rightarrow> Inl err
            | Inr cur \<Rightarrow>
                (let blockHeight = Height cur - 1
                 in case GetBlockByHeight led blockHeight of
                      Inl err \<Rightarrow> Inl err
                    | Inr block \<Rightarrow> Inr (blockHeight, Hash block)))
         else Inr (blockHeight, hash))"

text \<open>
  \<^verbatim>\<open>SetRescanBlockHeight\<close>: the height is unsigned, the subtraction wraps, and the
  test \<^verbatim>\<open>height < 0\<close> is the source's.
\<close>

definition SetRescanBlockHeight :: "ledger \<Rightarrow> store \<Rightarrow> u64 \<Rightarrow> error option \<times> store" where
  "SetRescanBlockHeight led st height =
     (let height = height - 1
      in if height < 0 then (Some RescanHeightError, st)
         else
           (case GetBlockByHeight led height of
              Inl err \<Rightarrow> (Some err, st)
            | Inr block \<Rightarrow> (None, SaveLocalNewBlock st height (Hash block))))"

section \<open>Notifier and batch extraction\<close>

text \<open>
  \<^verbatim>\<open>newExtractDataNotify\<close> walks the observers, the keys and the record sets. Go walks
  its maps in no fixed order; the lists here fix one. A delivery that fails stores an
  unscanned record, and the function returns no error whatever happened.
\<close>

definition notifyOne ::
  "u64 \<Rightarrow> (string \<Rightarrow> TxExtractData \<Rightarrow> string option) \<Rightarrow> string \<Rightarrow> TxExtractData
     \<Rightarrow> store \<Rightarrow> store" where
  "notifyOne height ob key data st =
     (case ob key data of
        None \<Rightarrow> st
      | Some err \<Rightarrow>
          SaveUnscanRecord st (NewUnscanRecord height '''' ''ExtractData Notify failed.''))"

definition newExtractDataNotify ::
  "scanner \<Rightarrow> store \<Rightarrow> u64 \<Rightarrow> (string \<times> TxExtractData list) list
     \<Rightarrow> error option \<times> store" where
  "newExtractDataNotify bs st height extractData' =
     (None,
      fold (\<lambda>ob. fold (\<lambda>(key, array). fold (notifyOne height ob key) array) extractData')
        (Observers bs) st)"

text \<open>
  \<^verbatim>\<open>saveWork\<close> is the single consumer of the results of one block. The extraction
  tasks run concurrently in the source and hand their results over in any order; the
  consumer handles them one after the other, which is the fold below over the results
  in the order of their arrival. The pair carries the counter \<^verbatim>\<open>failed\<close> and the store.
\<close>

definition saveWorkOne ::
  "scanner \<Rightarrow> u64 \<Rightarrow> ExtractResult \<Rightarrow> int \<times> store \<Rightarrow> int \<times> store" where
  "saveWorkOne bs height gets acc =
     (let (failed, st) = acc
      in if Success gets then
           (let (notifyErr, st) = newExtractDataNotify bs st height (extractData gets)
            in if notifyErr \<noteq> None then (failed + 1, st) else (failed, st))
         else
           (failed + 1, SaveUnscanRecord st (NewUnscanRecord height '''' '''')))"

definition saveWork ::
  "scanner \<Rightarrow> u64 \<Rightarrow> ExtractResult list \<Rightarrow> int \<times> store \<Rightarrow> int \<times> store" where
  "saveWork bs height results acc = fold (saveWorkOne bs height) results acc"

definition BatchExtractTransaction ::
  "scanner \<Rightarrow> ledger \<Rightarrow> store \<Rightarrow> u64 \<Rightarrow> string \<Rightarrow> error option \<times> store" where
  "BatchExtractTransaction bs led st blockHeight blockHash =
     (case GetTransactionsByHeight led blockHeight of
        Inl err \<Rightarrow> (Some err, st)
      | Inr txs \<Rightarrow>
          if length txs = 0 then (None, st)
          else
            (let results = map (\<lambda>tx. fst (ExtractTransaction bs led blockHeight blockHash tx
                                             (ScanTargetFunc bs))) txs;
                 (failed, st) = saveWork bs blockHeight results (0, st)
             in if failed > 0 then (Some SaveWorkFailed, st) else (None, st)))"

definition scanBlock :: "scanner \<Rightarrow> ledger \<Rightarrow> store \<Rightarrow> u64 \<Rightarrow> (error + Block) \<times> store" where
  "scanBlock bs led st height =
     (case GetBlockByHeight led height of
        Inl err \<Rightarrow>
          (Inl err, SaveUnscanRecord st (NewUnscanRecord height '''' (error_text err)))
      | Inr block \<Rightarrow>
          (Inr block, snd (BatchExtractTransaction bs led st (Height block) (Hash block))))"

section \<open>Scan loop\<close>

text \<open>
  One pass of the body of the loop of \<^verbatim>\<open>ScanBlockTask\<close>. The loop's variables are the
  working height and hash; the pass ends with \<^verbatim>\<open>continue\<close> (or the end of the body),
  with \<^verbatim>\<open>break\<close>, or with \<^verbatim>\<open>return\<close>.
\<close>

datatype control = Continue | Break | Return

record scan_state =
  currentHeight :: u64
  currentHash :: string
  db :: store

text \<open>The branch taken when the fetched block does not continue the local chain.\<close>

definition forkRecovery ::
  "scanner \<Rightarrow> ledger \<Rightarrow> scan_state \<Rightarrow> control \<times> scan_state" where
  "forkRecovery bs led s =
     (let forkBlock = GetLocalBlock (db s) (currentHeight s - 1);
          st = DeleteUnscanRecord (db s) (currentHeight s - 1);
          currentHeight' = currentHeight s - 2;
          currentHeight' = (if currentHeight' \<le> 0 then 1 else currentHeight');
          s = s\<lparr>currentHeight := currentHeight', db := st\<rparr>;
          found =
            (case GetLocalBlock st currentHeight' of
               Some b \<Rightarrow> Inr b
             | None \<Rightarrow> GetBlockByHeight led currentHeight')
      in case found of
           Inl err \<Rightarrow> (Break, s)
         | Inr localBlock \<Rightarrow>
             (let st = SaveLocalNewBlock st (Height localBlock) (Hash localBlock);
                  st = (case forkBlock of
                          None \<Rightarrow> st
                        | Some fb \<Rightarrow> newBlockNotify bs st fb True)
              in (Continue, s\<lparr>currentHash := Hash localBlock, db := st\<rparr>)))"

definition scan_step :: "scanner \<Rightarrow> ledger \<Rightarrow> scan_state \<Rightarrow> control \<times> scan_state" where
  "scan_step bs led s =
     (if \<not> Scanning bs then (Return, s)
      else
        case GetBlockHeight led of
          Inl err \<Rightarrow> (Break, s)
        | Inr maxHeight \<Rightarrow>
            if currentHeight s \<ge> maxHeight then (Break, s)
            else
              (let s = s\<lparr>currentHeight := currentHeight s + 1\<rparr>
               in case GetBlockByHeight led (currentHeight s) of
                    Inl err \<Rightarrow>
                      (Continue, s\<lparr>db := SaveUnscanRecord (db s)
                          (NewUnscanRecord (currentHeight s) '''' (error_text err))\<rparr>)
                  | Inr block \<Rightarrow>
                      if currentHash s \<noteq> PrevBlockHash block then forkRecovery bs led s
                      else
                        (case BatchExtractTransaction bs led (db s) (Height block) (Hash block) of
                           (Some err, st) \<Rightarrow> (Return, s\<lparr>db := st\<rparr>)
                         | (None, st) \<Rightarrow>
                             (let s = s\<lparr>currentHash := Hash block\<rparr>;
                                  st = SaveLocalNewBlock st (currentHeight s) (currentHash s);
                                  st = SaveLocalBlock st block;
                                  st = newBlockNotify bs st block False
                              in (Continue, s\<lparr>db := st\<rparr>)))))"

text \<open>
  The loop runs the body until it breaks or returns. A fork that the local store keeps
  reporting can keep it running, so the loop is a partial function: \<open>None\<close> is a loop
  that does not end. The ledger is the same at every pass.
\<close>

partial_function (option) scan_loop ::
  "scanner \<Rightarrow> ledger \<Rightarrow> scan_state \<Rightarrow> (control \<times> scan_state) option" where
  "scan_loop bs led s =
     (let r = scan_step bs led s
      in if fst r = Continue then scan_loop bs led (snd r) else Some r)"

text \<open>
  The tail rescan \<^verbatim>\<open>for i := currentHeight - bs.RescanLastBlockCount; i < currentHeight; i++\<close>
  on unsigned 64-bit heights: the heights that the loop visits, and the loop itself.
\<close>

function tailRescanFrom :: "u64 \<Rightarrow> u64 \<Rightarrow> u64 list" where
  "tailRescanFrom i currentHeight' =
     (if i < currentHeight' then i # tailRescanFrom (i + 1) currentHeight' else [])"
  by pat_completeness auto
termination
proof (relation "measure (\<lambda>(i, h). unat h - unat i)")
  show "wf (measure (\<lambda>(i, h). unat h - unat i))" by simp
next
  fix i h :: u64
  assume lt: "i < h"
  then have "unat h - unat (i + 1) < unat h - unat i"
    by unat_arith
  then show "((i + 1, h), (i, h)) \<in> measure (\<lambda>(i, h). unat h - unat i)"
    by simp
qed

declare tailRescanFrom.simps [simp del]

definition tailRescanHeights :: "scanner \<Rightarrow> u64 \<Rightarrow> u64 list" where
  "tailRescanHeights bs currentHeight' =
     tailRescanFrom (currentHeight' - RescanLastBlockCount bs) currentHeight'"

definition tailRescan :: "scanner \<Rightarrow> ledger \<Rightarrow> u64 \<Rightarrow> store \<Rightarrow> store" where
  "tailRescan bs led currentHeight' st =
     fold (\<lambda>i st. snd (scanBlock bs led st i)) (tailRescanHeights bs currentHeight') st"

section \<open>What the extraction is expected to produce\<close>

text \<open>
  The record sets as the specification words them: the input side is a debit of the
  transfer value followed by a debit of the fee, the output side is one credit of the
  transfer value. They are compared with the code's \<^verbatim>\<open>extractTxInput\<close>,
  \<^verbatim>\<open>extractTxOutput\<close> and \<^verbatim>\<open>InitExtractResult\<close> below.
\<close>

definition spec_entry :: "scanner \<Rightarrow> Transaction \<Rightarrow> string \<Rightarrow> string \<Rightarrow> u64 \<Rightarrow> Recharge" where
  "spec_entry bs tx sid address minorUnits =
     \<lparr>Sid = sid, rc_TxID = TxID tx, Address = address, rc_Coin = nativeCoin bs,
      rc_Amount = amountString bs minorUnits, rc_BlockHash = BlockHash tx,
      rc_BlockHeight = BlockHeight tx, Index = 0, CreateAt = CreateTime tx\<rparr>"

definition spec_inputSid :: "scanner \<Rightarrow> Transaction \<Rightarrow> string" where
  "spec_inputSid bs tx = GenTxInputSID bs (TxID tx) (wm_Symbol bs) '''' 0"

definition spec_outputSid :: "scanner \<Rightarrow> Transaction \<Rightarrow> string" where
  "spec_outputSid bs tx = GenTxOutPutSID bs (TxID tx) (wm_Symbol bs) '''' 0"

definition spec_wxID :: "scanner \<Rightarrow> Transaction \<Rightarrow> string" where
  "spec_wxID bs tx = WxIDHash bs (TxID tx) (wm_Symbol bs) ''''"

definition spec_valueDebit :: "scanner \<Rightarrow> Transaction \<Rightarrow> TxInput" where
  "spec_valueDebit bs tx =
     \<lparr>SourceTxID = '''', SourceIndex = 0,
      in_Recharge = spec_entry bs tx (spec_inputSid bs tx) (Sender tx) (Value tx)\<rparr>"

definition spec_feeDebit :: "scanner \<Rightarrow> Transaction \<Rightarrow> TxInput" where
  "spec_feeDebit bs tx =
     \<lparr>SourceTxID = '''', SourceIndex = 0,
      in_Recharge = spec_entry bs tx (spec_inputSid bs tx) (Sender tx) (Fee tx)\<rparr>"

definition spec_credit :: "scanner \<Rightarrow> Transaction \<Rightarrow> TxOutPut" where
  "spec_credit bs tx =
     \<lparr>out_Recharge = spec_entry bs tx (spec_outputSid bs tx) (Receiver tx) (Value tx)\<rparr>"

definition spec_recordSet :: "scanner \<Rightarrow> Transaction \<Rightarrow> bool \<Rightarrow> bool \<Rightarrow> TxExtractData" where
  "spec_recordSet bs tx inputSide outputSide =
     \<lparr>TxInputs = (if inputSide then [spec_valueDebit bs tx, spec_feeDebit bs tx] else []),
      TxOutputs = (if outputSide then [spec_credit bs tx] else []),
      Transaction = Some (normalizedTransaction bs tx)\<rparr>"

text \<open>The amount strings and the identifiers of a record set.\<close>

definition inputAmounts :: "TxExtractData \<Rightarrow> string list" where
  "inputAmounts d = map (\<lambda>i. rc_Amount (in_Recharge i)) (TxInputs d)"

definition outputAmounts :: "TxExtractData \<Rightarrow> string list" where
  "outputAmounts d = map (\<lambda>q. rc_Amount (out_Recharge q)) (TxOutputs d)"

definition recordIds :: "TxExtractData \<Rightarrow> string option \<times> string list \<times> string list" where
  "recordIds d =
     (map_option WxID (Transaction d),
      map (\<lambda>i. Sid (in_Recharge i)) (TxInputs d),
      map (\<lambda>q. Sid (out_Recharge q)) (TxOutputs d))"

definition resultIds ::
  "ExtractResult \<Rightarrow> (string \<times> (string option \<times> string list \<times> string list) list) list" where
  "resultIds r = map (\<lambda>(key, array). (key, map recordIds array)) (extractData r)"

text \<open>The account keys and match flags that the resolver gives for a transaction.\<close>

definition senderTarget :: "BlockScanTargetFunc \<Rightarrow> Transaction \<Rightarrow> string \<times> bool" where
  "senderTarget f trx =
     f \<lparr>st_Address = Sender trx, st_BalanceModelType = BalanceModelTypeAddress\<rparr>"

definition receiverTarget :: "BlockScanTargetFunc \<Rightarrow> Transaction \<Rightarrow> string \<times> bool" where
  "receiverTarget f trx =
     f \<lparr>st_Address = Receiver trx, st_BalanceModelType = BalanceModelTypeAddress\<rparr>"

section \<open>Concrete scenes\<close>

text \<open>
  A scanner for an asset with eight decimal places. Its identifier generators join
  their arguments, its only observer refuses every delivery, its resolver answers with
  the address itself, and it rescans the last ten blocks.
\<close>

definition ex_bs :: scanner where
  "ex_bs =
     \<lparr>wm_Symbol = ''BEAM'', wm_Decimal = 8,
      GenTxInputSID = (\<lambda>txid symbol contractID n. ''input_'' @ txid @ ''_'' @ symbol),
      GenTxOutPutSID = (\<lambda>txid symbol contractID n. ''output_'' @ txid @ ''_'' @ symbol),
      WxIDHash = (\<lambda>txid symbol contractID. ''tx_'' @ txid @ ''_'' @ symbol),
      Observers = [\<lambda>key data. Some ''refused''],
      ScanTargetFunc = (\<lambda>t. (st_Address t, True)),
      Scanning = True, RescanLastBlockCount = 10\<rparr>"

text \<open>A transfer of 1000 minor units with a fee of 10.\<close>

definition ex_tx :: Transaction where
  "ex_tx =
     \<lparr>TxID = ''tx1'', BlockHeight = 10, BlockHash = '''', Sender = ''alice'',
      Receiver = ''bob'', Value = 1000, Fee = 10, CreateTime = 0\<rparr>"

definition ex_empty :: TxExtractData where
  "ex_empty = \<lparr>TxInputs = [], TxOutputs = [], Transaction = None\<rparr>"

text \<open>A resolver that maps every address to one account.\<close>

definition ex_oneAccount :: BlockScanTargetFunc where
  "ex_oneAccount = (\<lambda>t. (''account1'', True))"

text \<open>
  A local store that has scanned up to height 9 and keeps the blocks 7, 8 and 9, and the
  loop's variables at that cursor.
\<close>

definition ex_block :: "u64 \<Rightarrow> string \<Rightarrow> string \<Rightarrow> Block" where
  "ex_block h hash prev = \<lparr>Height = h, Hash = hash, PrevBlockHash = prev\<rparr>"

definition ex_store :: store where
  "ex_store =
     \<lparr>localNewBlock = (9, ''h9''),
      localBlocks = [7 \<mapsto> ex_block 7 ''h7'' ''h6'', 8 \<mapsto> ex_block 8 ''h8'' ''h7'',
                     9 \<mapsto> ex_block 9 ''h9'' ''h8''],
      unscanRecords = [], blockNotifications = []\<rparr>"

definition ex_state :: scan_state where
  "ex_state = \<lparr>currentHeight = 9, currentHash = ''h9'', db = ex_store\<rparr>"

text \<open>
  Three ledgers with the tip at height 10. On the first, block 10 builds on another
  block 9 than the local one (a fork). On the second, block 10 continues the local chain
  but its transaction list cannot be fetched. On the third, no block can be fetched.
\<close>

definition ex_forkLedger :: ledger where
  "ex_forkLedger =
     \<lparr>walletStatus = Inr (ex_block 10 ''g10'' ''g9''),
      blockByHeight = (\<lambda>h. if h = 10 then Inr (ex_block 10 ''g10'' ''g9'')
                            else Inl ''block not found''),
      transactionsByHeight = (\<lambda>h. Inr [])\<rparr>"

definition ex_txFailLedger :: ledger where
  "ex_txFailLedger =
     \<lparr>walletStatus = Inr (ex_block 10 ''h10'' ''h9''),
      blockByHeight = (\<lambda>h. if h = 10 then Inr (ex_block 10 ''h10'' ''h9'')
                            else Inl ''block not found''),
      transactionsByHeight = (\<lambda>h. Inl ''connection refused'')\<rparr>"

definition ex_blockFailLedger :: ledger where
  "ex_blockFailLedger =
     \<lparr>walletStatus = Inr (ex_block 10 ''h10'' ''h9''),
      blockByHeight = (\<lambda>h. Inl ''connection refused''),
      transactionsByHeight = (\<lambda>h. Inr [])\<rparr>"

text \<open>A fourth ledger: block 10 continues the local chain and holds the transfer.\<close>

definition ex_okLedger :: ledger where
  "ex_okLedger =
     \<lparr>walletStatus = Inr (ex_block 10 ''h10'' ''h9''),
      blockByHeight = (\<lambda>h. if h = 10 then Inr (ex_block 10 ''h10'' ''h9'')
                            else Inl ''block not found''),
      transactionsByHeight = (\<lambda>h. Inr [ex_tx])\<rparr>"

text \<open>The empty result that \<^verbatim>\<open>ExtractTransaction\<close> starts from, for the transfer above.\<close>

definition ex_result :: ExtractResult where
  "ex_result = \<lparr>extractData = [], er_TxID = ''tx1'', er_BlockHeight = 10, Success = False\<rparr>"

section \<open>The code against the expected record sets\<close>

lemma replicate_numeral: "replicate (numeral k) x = x # replicate (pred_numeral k) x"
  by (simp add: numeral_eq_Suc)

lemma amountString_1000: "wm_Decimal bs = 8 \<Longrightarrow> amountString bs 1000 = ''0.00001''"
  by (simp add: amountString_def decimal_String_def BigIntToDecimals_def natString.simps
      digit_char_def trimTrailingZeros_def Let_def replicate_numeral)

lemma amountString_10: "wm_Decimal bs = 8 \<Longrightarrow> amountString bs 10 = ''0.0000001''"
  by (simp add: amountString_def decimal_String_def BigIntToDecimals_def natString.simps
      digit_char_def trimTrailingZeros_def Let_def replicate_numeral)

lemma extractTxInput_eq:
  "extractTxInput bs tx d =
     d\<lparr>TxInputs := TxInputs d @ [spec_valueDebit bs tx, spec_feeDebit bs tx]\<rparr>"
  by (simp add: extractTxInput_def spec_valueDebit_def spec_feeDebit_def spec_entry_def
      spec_inputSid_def amountString_def nativeCoin_def Let_def)

lemma extractTxOutput_eq:
  "extractTxOutput bs tx d = d\<lparr>TxOutputs := TxOutputs d @ [spec_credit bs tx]\<rparr>"
  by (simp add: extractTxOutput_def spec_credit_def spec_entry_def spec_outputSid_def
      amountString_def nativeCoin_def Let_def)

lemma amounts_of_entries:
  "rc_Amount (in_Recharge (spec_valueDebit bs tx)) = amountString bs (Value tx)"
  "rc_Amount (in_Recharge (spec_feeDebit bs tx)) = amountString bs (Fee tx)"
  "rc_Amount (out_Recharge (spec_credit bs tx)) = amountString bs (Value tx)"
  by (simp_all add: spec_valueDebit_def spec_feeDebit_def spec_credit_def spec_entry_def)

lemma InitExtractResult_eq:
  "InitExtractResult bs tx key r op =
     r\<lparr>extractData := AList.update key
         ((case map_of (extractData r) key of None \<Rightarrow> [] | Some a \<Rightarrow> a)
            @ [spec_recordSet bs tx (op = 0 \<or> op = 1) (op = 0 \<or> op = 2)])
         (extractData r)\<rparr>"
  by (simp add: InitExtractResult_def extractTxInput_eq extractTxOutput_eq
      spec_recordSet_def Let_def)

lemma ExtractTransaction_same:
  assumes "senderTarget f trx = (a, ok1)" "receiverTarget f trx = (a, ok2)" "a \<noteq> []"
  shows "extractData (fst (ExtractTransaction bs led h bh trx f)) =
           [(a, [spec_recordSet bs (snd (ExtractTransaction bs led h bh trx f)) True True])]"
  using assms
  by (simp add: ExtractTransaction_def InitExtractResult_eq senderTarget_def
      receiverTarget_def Let_def split: prod.splits sum.splits)

lemma ExtractTransaction_diff:
  assumes "senderTarget f trx = (a1, ok1)" "receiverTarget f trx = (a2, ok2)" "a1 \<noteq> a2"
  shows "extractData (fst (ExtractTransaction bs led h bh trx f)) =
           (if ok1 then [(a1, [spec_recordSet bs (snd (ExtractTransaction bs led h bh trx f))
                                 True False])] else [])
           @ (if ok2 then [(a2, [spec_recordSet bs (snd (ExtractTransaction bs led h bh trx f))
                                   False True])] else [])"
  using assms
  by (simp add: ExtractTransaction_def InitExtractResult_eq senderTarget_def
      receiverTarget_def Let_def split: prod.splits sum.splits)

lemma ExtractTransaction_Success: "Success (fst (ExtractTransaction bs led h bh trx f))"
  by (simp add: ExtractTransaction_def Let_def split: prod.splits sum.splits)

lemma recordIds_spec_recordSet:
  "recordIds (spec_recordSet bs tx i q) =
     (Some (spec_wxID bs tx),
      if i then [spec_inputSid bs tx, spec_inputSid bs tx] else [],
      if q then [spec_outputSid bs tx] else [])"
  by (simp add: recordIds_def spec_recordSet_def normalizedTransaction_def
      GenTransactionWxID_def spec_wxID_def nativeCoin_def spec_valueDebit_def
      spec_feeDebit_def spec_credit_def spec_entry_def Let_def)

text \<open>
  The identifiers of a result are a function of the scanner, the resolver's answers and
  the transaction's txID: the block context does not enter.
\<close>

lemma resultIds_ExtractTransaction:
  "resultIds (fst (ExtractTransaction bs led h bh trx f)) =
     (let (a1, ok1) = senderTarget f trx; (a2, ok2) = receiverTarget f trx;
          w = Some (WxIDHash bs (TxID trx) (wm_Symbol bs) '''');
          i = GenTxInputSID bs (TxID trx) (wm_Symbol bs) '''' 0;
          q = GenTxOutPutSID bs (TxID trx) (wm_Symbol bs) '''' 0
      in if a1 = a2 \<and> a1 \<noteq> [] then [(a1, [(w, [i, i], [q])])]
         else if a1 = a2 \<and> ok1 \<and> ok2 then [(a1, [(w, [i, i], []), (w, [], [q])])]
         else (if ok1 then [(a1, [(w, [i, i], [])])] else [])
              @ (if ok2 then [(a2, [(w, [], [q])])] else []))"
  by (simp add: ExtractTransaction_def InitExtractResult_eq senderTarget_def
      receiverTarget_def resultIds_def recordIds_spec_recordSet spec_wxID_def
      spec_inputSid_def spec_outputSid_def Let_def split: prod.splits sum.splits)

section \<open>Extraction: the claims\<close>

text \<open>
  C3 as the code has it. For a transfer of 1000 minor units with a fee of 10 under eight
  decimal places, the input side gains two entries whose amount strings are "0.00001"
  and "0.0000001", and the output side one entry "0.00001": the decimal string carries
  no trailing zeros.
\<close>

theorem C3_amount_strings:
  assumes "Value tx = 1000" and "Fee tx = 10" and "wm_Decimal bs = 8"
  shows "inputAmounts (extractTxInput bs tx d) = inputAmounts d @ [''0.00001'', ''0.0000001'']
       \<and> outputAmounts (extractTxOutput bs tx d) = outputAmounts d @ [''0.00001'']"
  using assms
  by (simp add: inputAmounts_def outputAmounts_def extractTxInput_eq extractTxOutput_eq
      amounts_of_entries amountString_1000 amountString_10)

theorem C3_amount_strings_witness:
  "Value ex_tx = 1000 \<and> Fee ex_tx = 10 \<and> wm_Decimal ex_bs = 8
   \<and> inputAmounts (extractTxInput ex_bs ex_tx ex_empty) = [''0.00001'', ''0.0000001'']
   \<and> outputAmounts (extractTxOutput ex_bs ex_tx ex_empty) = [''0.00001'']"
  using C3_amount_strings [of ex_tx ex_bs ex_empty]
  by (simp add: ex_tx_def ex_bs_def ex_empty_def inputAmounts_def outputAmounts_def)

text \<open>
  C3 as it is worded fails on the scene above: the input side's amount strings are not
  "0.00001000" and "0.00000010", and the output side's is not "0.00001000".
\<close>

theorem C3_counterexample:
  "inputAmounts (extractTxInput ex_bs ex_tx ex_empty) \<noteq> [''0.00001000'', ''0.00000010'']
   \<and> outputAmounts (extractTxOutput ex_bs ex_tx ex_empty) \<noteq> [''0.00001000'']"
  by (simp add: inputAmounts_def outputAmounts_def extractTxInput_eq extractTxOutput_eq
      amounts_of_entries amountString_1000 amountString_10 ex_tx_def ex_bs_def ex_empty_def)

text \<open>
  C4. When the resolver maps the sender and the receiver to the same non-empty key, the
  result holds one entry, under that key, with one record set, and that record set
  carries the input side (two entries) and the output side (one entry).
\<close>

theorem C4_same_key_one_combined_set:
  assumes "senderTarget f trx = (a, ok1)" and "receiverTarget f trx = (a, ok2)"
    and "a \<noteq> []"
  shows "\<exists>d. extractData (fst (ExtractTransaction bs led h bh trx f)) = [(a, [d])]
           \<and> d = spec_recordSet bs (snd (ExtractTransaction bs led h bh trx f)) True True
           \<and> length (TxInputs d) = 2 \<and> length (TxOutputs d) = 1"
  using ExtractTransaction_same [OF assms, of bs led h bh]
  by (simp add: spec_recordSet_def)

theorem C4_same_key_witness:
  "senderTarget ex_oneAccount ex_tx = (''account1'', True)
   \<and> receiverTarget ex_oneAccount ex_tx = (''account1'', True)
   \<and> ''account1'' \<noteq> []
   \<and> (\<exists>d. extractData (fst (ExtractTransaction ex_bs ex_forkLedger 10 ''g10'' ex_tx
                               ex_oneAccount)) = [(''account1'', [d])]
          \<and> length (TxInputs d) = 2 \<and> length (TxOutputs d) = 1)"
  using C4_same_key_one_combined_set [of ex_oneAccount ex_tx "''account1''" True True
      ex_bs ex_forkLedger 10 "''g10''"]
  by (simp add: senderTarget_def receiverTarget_def ex_oneAccount_def)

text \<open>
  C5. When the resolver maps the sender and the receiver to different keys, the result
  holds an input-only record set under the sender's key exactly when the sender
  matched, and an output-only record set under the receiver's key exactly when the
  receiver matched; the value entry of the input side and the entry of the output side
  carry the same amount, that of the transfer value.
\<close>

theorem C5_different_keys_independent_sets:
  assumes "senderTarget f trx = (a1, ok1)" and "receiverTarget f trx = (a2, ok2)"
    and "a1 \<noteq> a2"
  shows "extractData (fst (ExtractTransaction bs led h bh trx f)) =
           (if ok1 then [(a1, [spec_recordSet bs (snd (ExtractTransaction bs led h bh trx f))
                                 True False])] else [])
           @ (if ok2 then [(a2, [spec_recordSet bs (snd (ExtractTransaction bs led h bh trx f))
                                   False True])] else [])
       \<and> inputAmounts (spec_recordSet bs (snd (ExtractTransaction bs led h bh trx f)) True False)
           = [amountString bs (Value trx), amountString bs (Fee trx)]
       \<and> outputAmounts (spec_recordSet bs (snd (ExtractTransaction bs led h bh trx f)) True False)
           = []
       \<and> inputAmounts (spec_recordSet bs (snd (ExtractTransaction bs led h bh trx f)) False True)
           = []
       \<and> outputAmounts (spec_recordSet bs (snd (ExtractTransaction bs led h bh trx f)) False True)
           = [amountString bs (Value trx)]"
proof -
  have "Value (snd (ExtractTransaction bs led h bh trx f)) = Value trx"
    and "Fee (snd (ExtractTransaction bs led h bh trx f)) = Fee trx"
    by (simp_all add: ExtractTransaction_def Let_def split: prod.splits sum.splits)
  then show ?thesis
    using ExtractTransaction_diff [OF assms, of bs led h bh]
    by (simp add: spec_recordSet_def inputAmounts_def outputAmounts_def amounts_of_entries)
qed

theorem C5_different_keys_witness:
  "senderTarget (ScanTargetFunc ex_bs) ex_tx = (''alice'', True)
   \<and> receiverTarget (ScanTargetFunc ex_bs) ex_tx = (''bob'', True)
   \<and> ''alice'' \<noteq> ''bob''
   \<and> map fst (extractData (fst (ExtractTransaction ex_bs ex_forkLedger 10 ''g10'' ex_tx
                                  (ScanTargetFunc ex_bs)))) = [''alice'', ''bob'']"
  using C5_different_keys_independent_sets [of "ScanTargetFunc ex_bs" ex_tx "''alice''" True
      "''bob''" True ex_bs ex_forkLedger 10 "''g10''"]
  by (simp add: senderTarget_def receiverTarget_def ex_bs_def ex_tx_def)

text \<open>
  C6. The record set that \<^verbatim>\<open>InitExtractResult\<close> appends under the key has, when the
  input side is extracted (operate 0 or 1), exactly two input entries, the first with
  the amount of the transfer value and the second with the amount of the fee, the
  value entry not reduced by the fee; and when the output side is extracted (operate 0
  or 2), exactly one output entry with the amount of the transfer value.
\<close>

theorem C6_two_debits_one_credit:
  "(let d = last (the (map_of (extractData (InitExtractResult bs tx key r operate)) key))
    in inputAmounts d =
         (if operate = 0 \<or> operate = 1
          then [amountString bs (Value tx), amountString bs (Fee tx)] else [])
     \<and> outputAmounts d =
         (if operate = 0 \<or> operate = 2 then [amountString bs (Value tx)] else []))"
  by (simp add: InitExtractResult_eq update_conv' spec_recordSet_def inputAmounts_def
      outputAmounts_def amounts_of_entries)

theorem C6_two_debits_witness:
  "inputAmounts (last (the (map_of (extractData
       (InitExtractResult ex_bs ex_tx ''account1'' ex_result 0)) ''account1'')))
     = [''0.00001'', ''0.0000001'']
   \<and> outputAmounts (last (the (map_of (extractData
       (InitExtractResult ex_bs ex_tx ''account1'' ex_result 0)) ''account1'')))
     = [''0.00001'']"
proof -
  have "wm_Decimal ex_bs = 8" and "Value ex_tx = 1000" and "Fee ex_tx = 10"
    by (simp_all add: ex_bs_def ex_tx_def)
  then have "amountString ex_bs (Value ex_tx) = ''0.00001''"
    and "amountString ex_bs (Fee ex_tx) = ''0.0000001''"
    by (simp_all add: amountString_1000 amountString_10)
  then show ?thesis
    using C6_two_debits_one_credit [of ex_bs ex_tx "''account1''" ex_result 0]
    by (simp add: Let_def)
qed

text \<open>
  C7. Extraction run again, on the transaction as the first run left it and with the
  same resolver, yields the same identifiers under the same keys, whatever block
  context the second run is given. Every WxID is the hash of (txID, symbol, contract
  identifier), every input-side Sid the generator's value at (txID, symbol, contract
  identifier, 0), and every output-side Sid likewise.
\<close>

theorem C7_identifiers_repeat:
  "(let (r1, trx1) = ExtractTransaction bs led h bh trx f;
        (r2, trx2) = ExtractTransaction bs led' h' bh' trx1 f
    in resultIds r2 = resultIds r1
       \<and> (\<forall>(key, sets) \<in> set (resultIds r1). \<forall>(w, ins, outs) \<in> set sets.
            w = Some (spec_wxID bs trx)
            \<and> set ins \<subseteq> {spec_inputSid bs trx}
            \<and> set outs \<subseteq> {spec_outputSid bs trx}))"
proof -
  define trx1 where "trx1 = snd (ExtractTransaction bs led h bh trx f)"
  have same: "TxID trx1 = TxID trx" "senderTarget f trx1 = senderTarget f trx"
    "receiverTarget f trx1 = receiverTarget f trx"
    by (simp_all add: trx1_def ExtractTransaction_def senderTarget_def receiverTarget_def
        Let_def split: prod.splits sum.splits)
  have "resultIds (fst (ExtractTransaction bs led' h' bh' trx1 f))
          = resultIds (fst (ExtractTransaction bs led h bh trx f))"
    by (simp only: resultIds_ExtractTransaction same)
  moreover have "\<forall>(key, sets) \<in> set (resultIds (fst (ExtractTransaction bs led h bh trx f))).
        \<forall>(w, ins, outs) \<in> set sets.
            w = Some (spec_wxID bs trx)
            \<and> set ins \<subseteq> {spec_inputSid bs trx}
            \<and> set outs \<subseteq> {spec_outputSid bs trx}"
    by (auto simp add: resultIds_ExtractTransaction spec_wxID_def spec_inputSid_def
        spec_outputSid_def Let_def split: prod.splits if_splits)
  ultimately show ?thesis
    by (simp add: trx1_def case_prod_beta)
qed

theorem C7_identifiers_witness:
  "resultIds (fst (ExtractTransaction ex_bs ex_forkLedger 10 ''g10'' ex_tx
       (ScanTargetFunc ex_bs)))
   = [(''alice'', [(Some ''tx_tx1_BEAM'', [''input_tx1_BEAM'', ''input_tx1_BEAM''], [])]),
      (''bob'', [(Some ''tx_tx1_BEAM'', [], [''output_tx1_BEAM''])])]
   \<and> resultIds (fst (ExtractTransaction ex_bs ex_txFailLedger 11 ''k11''
       (snd (ExtractTransaction ex_bs ex_forkLedger 10 ''g10'' ex_tx (ScanTargetFunc ex_bs)))
       (ScanTargetFunc ex_bs)))
   = [(''alice'', [(Some ''tx_tx1_BEAM'', [''input_tx1_BEAM'', ''input_tx1_BEAM''], [])]),
      (''bob'', [(Some ''tx_tx1_BEAM'', [], [''output_tx1_BEAM''])])]
   \<and> spec_wxID ex_bs ex_tx = ''tx_tx1_BEAM''
   \<and> spec_inputSid ex_bs ex_tx = ''input_tx1_BEAM''
   \<and> spec_outputSid ex_bs ex_tx = ''output_tx1_BEAM''"
proof -
  have first: "resultIds (fst (ExtractTransaction ex_bs ex_forkLedger 10 ''g10'' ex_tx
            (ScanTargetFunc ex_bs)))
      = [(''alice'', [(Some ''tx_tx1_BEAM'', [''input_tx1_BEAM'', ''input_tx1_BEAM''], [])]),
         (''bob'', [(Some ''tx_tx1_BEAM'', [], [''output_tx1_BEAM''])])]"
    by (simp add: resultIds_ExtractTransaction senderTarget_def receiverTarget_def ex_bs_def
        ex_tx_def Let_def)
  have "resultIds (fst (ExtractTransaction ex_bs ex_txFailLedger 11 ''k11''
          (snd (ExtractTransaction ex_bs ex_forkLedger 10 ''g10'' ex_tx (ScanTargetFunc ex_bs)))
          (ScanTargetFunc ex_bs)))
        = resultIds (fst (ExtractTransaction ex_bs ex_forkLedger 10 ''g10'' ex_tx
            (ScanTargetFunc ex_bs)))"
    using C7_identifiers_repeat [of ex_bs ex_forkLedger 10 "''g10''" ex_tx
        "ScanTargetFunc ex_bs" ex_txFailLedger 11 "''k11''"]
    by (simp add: case_prod_beta)
  with first have second: "resultIds (fst (ExtractTransaction ex_bs ex_txFailLedger 11 ''k11''
          (snd (ExtractTransaction ex_bs ex_forkLedger 10 ''g10'' ex_tx (ScanTargetFunc ex_bs)))
          (ScanTargetFunc ex_bs)))
      = [(''alice'', [(Some ''tx_tx1_BEAM'', [''input_tx1_BEAM'', ''input_tx1_BEAM''], [])]),
         (''bob'', [(Some ''tx_tx1_BEAM'', [], [''output_tx1_BEAM''])])]"
    by simp
  have ids: "spec_wxID ex_bs ex_tx = ''tx_tx1_BEAM''"
    "spec_inputSid ex_bs ex_tx = ''input_tx1_BEAM''"
    "spec_outputSid ex_bs ex_tx = ''output_tx1_BEAM''"
    by (simp_all add: spec_wxID_def spec_inputSid_def spec_outputSid_def ex_bs_def ex_tx_def)
  from first second ids show ?thesis
    by (intro conjI)
qed

section \<open>Batch extraction and the notifier\<close>

lemma saveWorkOne_Success:
  "Success r \<Longrightarrow> fst (saveWorkOne bs h r (failed, st)) = failed"
  by (simp add: saveWorkOne_def newExtractDataNotify_def)

lemma saveWork_Success:
  "list_all Success results \<Longrightarrow> fst (saveWork bs h results (failed, st)) = failed"
proof (induction results arbitrary: st)
  case Nil
  then show ?case by (simp add: saveWork_def)
next
  case (Cons r results)
  obtain st' where step: "saveWorkOne bs h r (failed, st) = (failed, st')"
    using Cons.prems saveWorkOne_Success [of r bs h failed st]
    by (cases "saveWorkOne bs h r (failed, st)") simp
  from Cons.prems have "list_all Success results" by simp
  then have "fst (saveWork bs h results (failed, st')) = failed"
    by (rule Cons.IH)
  with step show ?case by (simp add: saveWork_def)
qed

lemma BatchExtractTransaction_error:
  "fst (BatchExtractTransaction bs led st h bh) =
     (case transactionsByHeight led h of
        Inl msg \<Rightarrow> Some (RpcError msg) | Inr txs \<Rightarrow> None)"
proof (cases "transactionsByHeight led h")
  case (Inl msg)
  then show ?thesis
    by (simp add: BatchExtractTransaction_def GetTransactionsByHeight_def)
next
  case (Inr txs)
  have "list_all Success
          (map (\<lambda>tx. fst (ExtractTransaction bs led h bh tx (ScanTargetFunc bs))) txs)"
    by (simp add: list_all_iff ExtractTransaction_Success)
  then have "fst (saveWork bs h
          (map (\<lambda>tx. fst (ExtractTransaction bs led h bh tx (ScanTargetFunc bs))) txs)
          (0, st)) = 0"
    by (rule saveWork_Success)
  with Inr show ?thesis
    by (simp add: BatchExtractTransaction_def GetTransactionsByHeight_def Let_def
        case_prod_beta)
qed

text \<open>
  C9. Every result of \<^verbatim>\<open>ExtractTransaction\<close> has \<open>Success\<close> set, whatever the resolver
  answers; \<^verbatim>\<open>newExtractDataNotify\<close> returns no error for any observers and any data;
  so the counter \<open>failed\<close> of \<^verbatim>\<open>saveWork\<close> stays at 0 over the results of a block, and
  \<^verbatim>\<open>BatchExtractTransaction\<close> returns an error exactly when the fetch of the
  transaction list fails, that error being the fetch's, never the aggregate one.
\<close>

theorem C9_batch_error_only_from_fetch:
  "Success (fst (ExtractTransaction bs led h bh trx f))
   \<and> fst (newExtractDataNotify bs st h extracted) = None
   \<and> fst (saveWork bs h
            (map (\<lambda>tx. fst (ExtractTransaction bs led h bh tx (ScanTargetFunc bs))) txs)
            (0, st)) = 0
   \<and> fst (BatchExtractTransaction bs led st h bh) =
        (case transactionsByHeight led h of
           Inl msg \<Rightarrow> Some (RpcError msg) | Inr txs \<Rightarrow> None)
   \<and> fst (BatchExtractTransaction bs led st h bh) \<noteq> Some SaveWorkFailed"
proof -
  have "list_all Success
          (map (\<lambda>tx. fst (ExtractTransaction bs led h bh tx (ScanTargetFunc bs))) txs)"
    by (simp add: list_all_iff ExtractTransaction_Success)
  then have "fst (saveWork bs h
          (map (\<lambda>tx. fst (ExtractTransaction bs led h bh tx (ScanTargetFunc bs))) txs)
          (0, st)) = 0"
    by (rule saveWork_Success)
  then show ?thesis
    by (simp add: ExtractTransaction_Success newExtractDataNotify_def
        BatchExtractTransaction_error split: sum.splits)
qed

text \<open>
  On the ledger whose block 10 holds one transaction, with the observer that refuses
  every delivery: the batch returns no error, and the two refused deliveries are kept
  as unscanned records.
\<close>

theorem C9_batch_witness:
  "BatchExtractTransaction ex_bs ex_okLedger ex_store 10 ''h10'' =
     (None, ex_store\<lparr>unscanRecords :=
        [NewUnscanRecord 10 '''' ''ExtractData Notify failed.'',
         NewUnscanRecord 10 '''' ''ExtractData Notify failed.'']\<rparr>)"
proof -
  have "fst (BatchExtractTransaction ex_bs ex_okLedger ex_store 10 ''h10'') = None"
    using C9_batch_error_only_from_fetch [of ex_bs ex_okLedger 10 "''h10''" ex_tx
        "ScanTargetFunc ex_bs" ex_store "[]" "[ex_tx]"]
    by (simp add: ex_okLedger_def)
  moreover have "snd (BatchExtractTransaction ex_bs ex_okLedger ex_store 10 ''h10'') =
      ex_store\<lparr>unscanRecords :=
        [NewUnscanRecord 10 '''' ''ExtractData Notify failed.'',
         NewUnscanRecord 10 '''' ''ExtractData Notify failed.'']\<rparr>"
    by (simp add: BatchExtractTransaction_def GetTransactionsByHeight_def ex_okLedger_def
        saveWork_def saveWorkOne_def newExtractDataNotify_def notifyOne_def
        SaveUnscanRecord_def ExtractTransaction_def InitExtractResult_eq ex_bs_def
        ex_tx_def ex_store_def Let_def)
  ultimately show ?thesis
    by (simp add: prod_eq_iff)
qed

section \<open>Resetting the scan height\<close>

text \<open>
  C10. For height 0 \<^verbatim>\<open>SetRescanBlockHeight\<close> does not return the error "block height
  to rescan must greater than 0.": the height is unsigned, 0 - 1 wraps to 2^64 - 1, the
  test \<^verbatim>\<open>height < 0\<close> does not hold, and the result is that of the lookup of the
  block at 2^64 - 1: its error, or a cursor saved at that height.
\<close>

theorem C10_rescan_height_zero:
  "fst (SetRescanBlockHeight led st 0) \<noteq> Some RescanHeightError
   \<and> unat ((0 :: u64) - 1) = 2 ^ 64 - 1
   \<and> SetRescanBlockHeight led st 0 =
       (case blockByHeight led (0 - 1) of
          Inl msg \<Rightarrow> (Some (RpcError msg), st)
        | Inr block \<Rightarrow> (None, st\<lparr>localNewBlock := (0 - 1, Hash block)\<rparr>))"
  by (simp add: SetRescanBlockHeight_def GetBlockByHeight_def SaveLocalNewBlock_def
      Let_def unsigned_minus_1_eq_mask mask_eq_exp_minus_1 split: sum.splits)

text \<open>
  On the ledger that knows block 10 only, the call with height 0 returns the lookup's
  error and leaves the store as it was.
\<close>

theorem C10_rescan_height_zero_witness:
  "SetRescanBlockHeight ex_forkLedger ex_store 0 =
     (Some (RpcError ''block not found''), ex_store)"
  using C10_rescan_height_zero [of ex_forkLedger ex_store]
  by (simp add: ex_forkLedger_def)

section \<open>Tail rescan\<close>

lemma tailRescanFrom_unat: "map unat (tailRescanFrom i h) = [unat i ..< unat h]"
proof (induction i h rule: tailRescanFrom.induct)
  case (1 i h)
  show ?case
  proof (cases "i < h")
    case True
    then have lt: "unat i < unat h"
      by (simp add: word_less_nat_alt)
    from True have "unat (i + 1) = Suc (unat i)"
      by unat_arith
    with True lt "1.IH" show ?thesis
      by (subst tailRescanFrom.simps) (simp add: upt_conv_Cons)
  next
    case False
    then have "unat h \<le> unat i"
      by (simp add: word_less_nat_alt)
    with False show ?thesis
      by (subst tailRescanFrom.simps) simp
  qed
qed

text \<open>
  Where the count does not exceed the height, the loop visits the heights from
  \<open>h - c\<close> up to \<open>h - 1\<close>.
\<close>

lemma tailRescanHeights_in_range:
  assumes "RescanLastBlockCount bs \<le> h"
  shows "map unat (tailRescanHeights bs h) =
           [unat h - unat (RescanLastBlockCount bs) ..< unat h]"
  using assms by (simp add: tailRescanHeights_def tailRescanFrom_unat unat_sub)

text \<open>Where the count exceeds the height, the lower bound wraps and no height is visited.\<close>

lemma tailRescanHeights_underflow:
  assumes "h < RescanLastBlockCount bs"
  shows "tailRescanHeights bs h = []"
proof -
  from assms have "\<not> h - RescanLastBlockCount bs < h"
    by unat_arith
  then show ?thesis
    by (subst tailRescanHeights_def, subst tailRescanFrom.simps) simp
qed

text \<open>
  C8, the code at height 5 with a count of 10: the lower bound is 5 - 10 = 2^64 - 5, not
  the genesis height, and the loop visits no height at all.
\<close>

theorem C8_tail_rescan_wraps:
  "unat (5 - RescanLastBlockCount ex_bs) = 2 ^ 64 - 5 \<and> tailRescanHeights ex_bs 5 = []"
proof -
  have "(5 :: u64) < RescanLastBlockCount ex_bs"
    by (simp add: ex_bs_def)
  then have "tailRescanHeights ex_bs 5 = []"
    by (rule tailRescanHeights_underflow)
  moreover have "unat (5 - RescanLastBlockCount ex_bs) = 2 ^ 64 - 5"
    by (simp add: ex_bs_def)
  ultimately show ?thesis by simp
qed

section \<open>The scan loop\<close>

lemma scan_step_fetch:
  assumes "Scanning bs" and "GetBlockHeight led = Inr maxHeight"
    and "currentHeight s < maxHeight"
  shows "scan_step bs led s =
     (case GetBlockByHeight led (currentHeight s + 1) of
        Inl err \<Rightarrow>
          (Continue, s\<lparr>currentHeight := currentHeight s + 1,
             db := SaveUnscanRecord (db s)
               (NewUnscanRecord (currentHeight s + 1) '''' (error_text err))\<rparr>)
      | Inr block \<Rightarrow>
          if currentHash s \<noteq> PrevBlockHash block
          then forkRecovery bs led (s\<lparr>currentHeight := currentHeight s + 1\<rparr>)
          else
            (case BatchExtractTransaction bs led (db s) (Height block) (Hash block) of
               (Some err, st) \<Rightarrow> (Return, s\<lparr>currentHeight := currentHeight s + 1, db := st\<rparr>)
             | (None, st) \<Rightarrow>
                 (Continue, s\<lparr>currentHeight := currentHeight s + 1,
                    currentHash := Hash block,
                    db := newBlockNotify bs
                      (SaveLocalBlock
                        (SaveLocalNewBlock st (currentHeight s + 1) (Hash block)) block)
                      block False\<rparr>)))"
proof -
  from assms(3) have "\<not> maxHeight \<le> currentHeight s"
    by simp
  with assms(1,2) show ?thesis
    by (simp add: scan_step_def Let_def split: sum.splits prod.splits option.splits)
qed

lemma rewind_height:
  fixes H R :: u64
  assumes "2 \<le> H" and "unat R = max 1 (unat H - 2)"
  shows "(if H - 2 \<le> 0 then 1 else H - 2) = R"
proof -
  from assms(1) have sub: "unat (H - 2) = unat H - 2"
    by (simp add: unat_sub)
  show ?thesis
  proof (cases "H - 2 = 0")
    case True
    with sub have "unat H - 2 = 0" by simp
    with assms(2) have "unat R = unat (1 :: u64)" by simp
    then have "R = 1" by (simp only: word_unat_eq_iff)
    with True show ?thesis by simp
  next
    case False
    then have "unat (H - 2) \<noteq> 0"
      by (simp add: unat_eq_0)
    with sub assms(2) have "unat R = unat (H - 2)" by simp
    then have "R = H - 2" by (simp only: word_unat_eq_iff)
    with False show ?thesis by simp
  qed
qed

text \<open>
  C1 as the code has it. Let the pass fetch the block at height \<open>H \<ge> 2\<close>, whose
  previous hash differs from the hash the scan holds for \<open>H - 1\<close>, and let the anchor
  be the block found for the height \<open>R = max 1 (H - 2)\<close>, in the local store or, when
  the store has none, on the ledger. Then the pass goes on with the loop, the persisted
  cursor is \<open>(R, hash of the anchor)\<close>, the working height and hash are the same pair,
  and the observers' log gains the fork-flagged header of the local copy of block
  \<open>H - 1\<close> when the store has one, and nothing when it has none.
\<close>

theorem C1_fork_recovery:
  assumes "Scanning bs" and "GetBlockHeight led = Inr maxHeight"
    and "currentHeight s < maxHeight" and "currentHeight s + 1 = H" and "2 \<le> H"
    and "blockByHeight led H = Inr block" and "PrevBlockHash block \<noteq> currentHash s"
    and "unat R = max 1 (unat H - 2)"
    and "localBlocks (db s) R = Some anchor
         \<or> (localBlocks (db s) R = None \<and> blockByHeight led R = Inr anchor)"
    and "Height anchor = R"
  shows "fst (scan_step bs led s) = Continue
       \<and> localNewBlock (db (snd (scan_step bs led s))) = (R, Hash anchor)
       \<and> currentHeight (snd (scan_step bs led s)) = R
       \<and> currentHash (snd (scan_step bs led s)) = Hash anchor
       \<and> blockNotifications (db (snd (scan_step bs led s))) =
           blockNotifications (db s)
           @ (case localBlocks (db s) (H - 1) of
                None \<Rightarrow> []
              | Some fb \<Rightarrow> [(Block_BlockHeader fb (wm_Symbol bs))\<lparr>bh_Fork := True\<rparr>])"
proof -
  have step: "scan_step bs led s = forkRecovery bs led (s\<lparr>currentHeight := H\<rparr>)"
    using assms(4,6,7)
    by (simp add: scan_step_fetch [OF assms(1-3)] GetBlockByHeight_def)
  have sel: "currentHeight (s\<lparr>currentHeight := H\<rparr>) = H"
    by simp
  have R: "(if currentHeight (s\<lparr>currentHeight := H\<rparr>) - 2 \<le> 0 then 1
            else currentHeight (s\<lparr>currentHeight := H\<rparr>) - 2) = R"
    unfolding sel using assms(5,8) by (rule rewind_height)
  have found: "(case GetLocalBlock (DeleteUnscanRecord (db s) (H - 1)) R of
                  Some b \<Rightarrow> Inr b
                | None \<Rightarrow> GetBlockByHeight led R) = Inr anchor"
    using assms(9)
    by (auto simp add: GetLocalBlock_def DeleteUnscanRecord_def GetBlockByHeight_def)
  show ?thesis
    unfolding step forkRecovery_def Let_def R
    using found assms(10)
    by (simp add: SaveLocalNewBlock_def newBlockNotify_def GetLocalBlock_def
        DeleteUnscanRecord_def split: option.splits)
qed

theorem C1_fork_recovery_witness:
  "Scanning ex_bs \<and> GetBlockHeight ex_forkLedger = Inr 10
   \<and> currentHeight ex_state < 10 \<and> currentHeight ex_state + 1 = 10
   \<and> (2 :: u64) \<le> 10
   \<and> blockByHeight ex_forkLedger 10 = Inr (ex_block 10 ''g10'' ''g9'')
   \<and> PrevBlockHash (ex_block 10 ''g10'' ''g9'') \<noteq> currentHash ex_state
   \<and> unat (8 :: u64) = max 1 (unat (10 :: u64) - 2)
   \<and> localBlocks (db ex_state) 8 = Some (ex_block 8 ''h8'' ''h7'')
   \<and> Height (ex_block 8 ''h8'' ''h7'') = 8
   \<and> fst (scan_step ex_bs ex_forkLedger ex_state) = Continue
   \<and> localNewBlock (db (snd (scan_step ex_bs ex_forkLedger ex_state))) = (8, ''h8'')
   \<and> blockNotifications (db (snd (scan_step ex_bs ex_forkLedger ex_state))) =
       [\<lparr>bh_Hash = ''h9'', bh_Previousblockhash = ''h8'', bh_Height = 9,
         bh_Symbol = ''BEAM'', bh_Fork = True\<rparr>]"
proof -
  have p1: "Scanning ex_bs"
    by (simp add: ex_bs_def)
  have p2: "GetBlockHeight ex_forkLedger = Inr 10"
    by (simp add: GetBlockHeight_def GetCurrentBlock_def ex_forkLedger_def ex_block_def)
  have p3: "currentHeight ex_state < 10" and p4: "currentHeight ex_state + 1 = 10"
    by (simp_all add: ex_state_def)
  have p5: "(2 :: u64) \<le> 10"
    by simp
  have p6: "blockByHeight ex_forkLedger 10 = Inr (ex_block 10 ''g10'' ''g9'')"
    by (simp add: ex_forkLedger_def)
  have p7: "PrevBlockHash (ex_block 10 ''g10'' ''g9'') \<noteq> currentHash ex_state"
    by (simp add: ex_block_def ex_state_def)
  have p8: "unat (8 :: u64) = max 1 (unat (10 :: u64) - 2)"
    by simp
  have p9: "localBlocks (db ex_state) 8 = Some (ex_block 8 ''h8'' ''h7'')"
    by (simp add: ex_state_def ex_store_def)
  have p10: "Height (ex_block 8 ''h8'' ''h7'') = 8"
    by (simp add: ex_block_def)
  have fb: "localBlocks (db ex_state) 9 = Some (ex_block 9 ''h9'' ''h8'')"
    by (simp add: ex_state_def ex_store_def)
  have log: "blockNotifications (db ex_state) = []"
    by (simp add: ex_state_def ex_store_def)
  have sym: "wm_Symbol ex_bs = ''BEAM''"
    by (simp add: ex_bs_def)
  note r = C1_fork_recovery [OF p1 p2 p3 p4 p5 p6 p7 p8 disjI1 [OF p9] p10]
  from r have c1: "fst (scan_step ex_bs ex_forkLedger ex_state) = Continue"
    by (rule conjunct1)
  from r have c2: "localNewBlock (db (snd (scan_step ex_bs ex_forkLedger ex_state))) = (8, ''h8'')"
    by (simp add: ex_block_def)
  from r have c3: "blockNotifications (db (snd (scan_step ex_bs ex_forkLedger ex_state))) =
       [\<lparr>bh_Hash = ''h9'', bh_Previousblockhash = ''h8'', bh_Height = 9,
         bh_Symbol = ''BEAM'', bh_Fork = True\<rparr>]"
    by (simp add: fb log sym ex_block_def Block_BlockHeader_def)
  from p1 p2 p3 p4 p5 p6 p7 p8 p9 p10 c1 c2 c3 show ?thesis
    by (intro conjI)
qed

text \<open>
  C1 as it is worded fails on that scene. The fetched block is that of height
  \<open>H = 10\<close>, the store holds block 7 with hash "h7" and block 8 with hash "h8", and the
  cursor after the recovery is (8, "h8"), which is not (H - 3, hash of H - 3).
\<close>

theorem C1_counterexample:
  "localBlocks ex_store (10 - 3) = Some (ex_block (10 - 3) ''h7'' ''h6'')
   \<and> localNewBlock (db (snd (scan_step ex_bs ex_forkLedger ex_state))) = (8, ''h8'')
   \<and> localNewBlock (db (snd (scan_step ex_bs ex_forkLedger ex_state))) \<noteq> (10 - 3, ''h7'')"
  by (simp add: scan_step_def forkRecovery_def ex_bs_def ex_forkLedger_def ex_state_def
      ex_store_def ex_block_def GetBlockHeight_def GetCurrentBlock_def GetBlockByHeight_def
      GetLocalBlock_def DeleteUnscanRecord_def SaveLocalNewBlock_def newBlockNotify_def
      Block_BlockHeader_def Let_def)

text \<open>
  C2 as the code has it. When the fetch of the block at the next height \<open>H\<close> fails, the
  pass stores an unscanned record for \<open>H\<close> with an empty txID and the error's text,
  leaves the persisted cursor as it was, and the loop goes on from \<open>H\<close>. When the block
  is fetched and continues the chain but the fetch of its transaction list fails, the
  pass ends the whole task at once: nothing is stored, the cursor is left as it was,
  and the loop returns.
\<close>

theorem C2_fetch_failures:
  assumes "Scanning bs" and "GetBlockHeight led = Inr maxHeight"
    and "currentHeight s < maxHeight" and "currentHeight s + 1 = H"
  shows "(\<forall>msg. blockByHeight led H = Inl msg \<longrightarrow>
            scan_step bs led s =
              (Continue, s\<lparr>currentHeight := H,
                 db := (db s)\<lparr>unscanRecords := unscanRecords (db s)
                   @ [\<lparr>ur_BlockHeight = H, ur_TxID = '''', ur_Reason = msg\<rparr>]\<rparr>\<rparr>)
            \<and> localNewBlock (db (snd (scan_step bs led s))) = localNewBlock (db s)
            \<and> scan_loop bs led s = scan_loop bs led (snd (scan_step bs led s)))
       \<and> (\<forall>block msg. blockByHeight led H = Inr block
              \<and> PrevBlockHash block = currentHash s
              \<and> transactionsByHeight led (Height block) = Inl msg \<longrightarrow>
            scan_step bs led s = (Return, s\<lparr>currentHeight := H\<rparr>)
            \<and> scan_loop bs led s = Some (Return, s\<lparr>currentHeight := H\<rparr>))"
proof (intro conjI allI impI)
  fix msg
  assume fail: "blockByHeight led H = Inl msg"
  then show step: "scan_step bs led s =
      (Continue, s\<lparr>currentHeight := H,
         db := (db s)\<lparr>unscanRecords := unscanRecords (db s)
           @ [\<lparr>ur_BlockHeight = H, ur_TxID = '''', ur_Reason = msg\<rparr>]\<rparr>\<rparr>)"
    using assms(4)
    by (simp add: scan_step_fetch [OF assms(1-3)] GetBlockByHeight_def SaveUnscanRecord_def
        NewUnscanRecord_def)
  then show "localNewBlock (db (snd (scan_step bs led s))) = localNewBlock (db s)"
    by simp
  from step show "scan_loop bs led s = scan_loop bs led (snd (scan_step bs led s))"
    by (subst scan_loop.simps) simp
next
  fix block msg
  assume fail: "blockByHeight led H = Inr block \<and> PrevBlockHash block = currentHash s
      \<and> transactionsByHeight led (Height block) = Inl msg"
  then show step: "scan_step bs led s = (Return, s\<lparr>currentHeight := H\<rparr>)"
    using assms(4)
    by (simp add: scan_step_fetch [OF assms(1-3)] GetBlockByHeight_def
        BatchExtractTransaction_def GetTransactionsByHeight_def)
  then show "scan_loop bs led s = Some (Return, s\<lparr>currentHeight := H\<rparr>)"
    by (subst scan_loop.simps) simp
qed

theorem C2_fetch_failures_witness:
  "Scanning ex_bs \<and> GetBlockHeight ex_blockFailLedger = Inr 10
   \<and> GetBlockHeight ex_txFailLedger = Inr 10
   \<and> currentHeight ex_state < 10 \<and> currentHeight ex_state + 1 = 10
   \<and> blockByHeight ex_blockFailLedger 10 = Inl ''connection refused''
   \<and> blockByHeight ex_txFailLedger 10 = Inr (ex_block 10 ''h10'' ''h9'')
   \<and> PrevBlockHash (ex_block 10 ''h10'' ''h9'') = currentHash ex_state
   \<and> transactionsByHeight ex_txFailLedger (Height (ex_block 10 ''h10'' ''h9''))
       = Inl ''connection refused''
   \<and> scan_step ex_bs ex_blockFailLedger ex_state =
       (Continue, ex_state\<lparr>currentHeight := 10,
          db := (db ex_state)\<lparr>unscanRecords := unscanRecords (db ex_state) @
            [\<lparr>ur_BlockHeight = 10, ur_TxID = '''', ur_Reason = ''connection refused''\<rparr>]\<rparr>\<rparr>)
   \<and> scan_step ex_bs ex_txFailLedger ex_state = (Return, ex_state\<lparr>currentHeight := 10\<rparr>)"
proof -
  have p1: "Scanning ex_bs"
    by (simp add: ex_bs_def)
  have p2: "GetBlockHeight ex_blockFailLedger = Inr 10"
    by (simp add: GetBlockHeight_def GetCurrentBlock_def ex_blockFailLedger_def ex_block_def)
  have p2': "GetBlockHeight ex_txFailLedger = Inr 10"
    by (simp add: GetBlockHeight_def GetCurrentBlock_def ex_txFailLedger_def ex_block_def)
  have p3: "currentHeight ex_state < 10" and p4: "currentHeight ex_state + 1 = 10"
    by (simp_all add: ex_state_def)
  have q1: "blockByHeight ex_blockFailLedger 10 = Inl ''connection refused''"
    by (simp add: ex_blockFailLedger_def)
  have q2: "blockByHeight ex_txFailLedger 10 = Inr (ex_block 10 ''h10'' ''h9'')"
    by (simp add: ex_txFailLedger_def)
  have q3: "PrevBlockHash (ex_block 10 ''h10'' ''h9'') = currentHash ex_state"
    by (simp add: ex_block_def ex_state_def)
  have q4: "transactionsByHeight ex_txFailLedger (Height (ex_block 10 ''h10'' ''h9''))
       = Inl ''connection refused''"
    by (simp add: ex_txFailLedger_def)
  from C2_fetch_failures [OF p1 p2 p3 p4] q1
  have c1: "scan_step ex_bs ex_blockFailLedger ex_state =
       (Continue, ex_state\<lparr>currentHeight := 10,
          db := (db ex_state)\<lparr>unscanRecords := unscanRecords (db ex_state) @
            [\<lparr>ur_BlockHeight = 10, ur_TxID = '''', ur_Reason = ''connection refused''\<rparr>]\<rparr>\<rparr>)"
    by blast
  from C2_fetch_failures [OF p1 p2' p3 p4] q2 q3 q4
  have c2: "scan_step ex_bs ex_txFailLedger ex_state = (Return, ex_state\<lparr>currentHeight := 10\<rparr>)"
    by blast
  from p1 p2 p2' p3 p4 q1 q2 q3 q4 c1 c2 show ?thesis
    by (intro conjI)
qed

text \<open>
  C2 as it is worded fails on the ledger whose transaction list cannot be fetched: the
  pass returns, the loop with it, and no unscanned record is stored.
\<close>

theorem C2_counterexample:
  "fst (scan_step ex_bs ex_txFailLedger ex_state) = Return
   \<and> unscanRecords (db (snd (scan_step ex_bs ex_txFailLedger ex_state))) = []
   \<and> scan_loop ex_bs ex_txFailLedger ex_state =
       Some (Return, ex_state\<lparr>currentHeight := 10\<rparr>)"
proof -
  have step: "scan_step ex_bs ex_txFailLedger ex_state = (Return, ex_state\<lparr>currentHeight := 10\<rparr>)"
    by (simp add: scan_step_def ex_bs_def ex_txFailLedger_def ex_state_def ex_store_def
        ex_block_def GetBlockHeight_def GetCurrentBlock_def GetBlockByHeight_def
        BatchExtractTransaction_def GetTransactionsByHeight_def Let_def)
  moreover from step have "scan_loop ex_bs ex_txFailLedger ex_state =
       Some (Return, ex_state\<lparr>currentHeight := 10\<rparr>)"
    by (subst scan_loop.simps) simp
  ultimately show ?thesis
    by (simp add: ex_state_def ex_store_def)
qed

end
